theory Spec2Isabelle
  imports Complex_Main "HOL-Library.AList"
begin

section \<open>Data model of the transit engine (src/transit/transit.go)\<close>

text \<open>
  Go's \<^verbatim>\<open>interface{}\<close> values that flow through the engine: what handlers put into
  payload maps, what a decoded message yields through \<^verbatim>\<open>Value()\<close>, and what is sent on a
  result channel. \<open>VInt\<close> is an int64, \<open>VFloat\<close> a float64 holding an exactly representable
  rational, \<open>VErr\<close> a Go \<^verbatim>\<open>error\<close> (as built by \<^verbatim>\<open>fmt.Errorf\<close>), \<open>VChan\<close> a channel.
\<close>

datatype gvalue =
    VNil
  | VBool bool
  | VInt int
  | VFloat rat
  | VStr string
  | VList "gvalue list"
  | VMap "(string \<times> gvalue) list"
  | VErr string
  | VChan nat

text \<open>\<^verbatim>\<open>map[string]interface{}\<close>: \<^verbatim>\<open>m[k] = v\<close> is \<open>AList.update k v m\<close>, \<^verbatim>\<open>m[k]\<close> is \<open>map_of m k\<close>.\<close>

type_synonym payload = "(string \<times> gvalue) list"

text \<open>
  \<^verbatim>\<open>TransitMessage\<close> is an interface of package \<^verbatim>\<open>common\<close>; the engine only calls
  \<^verbatim>\<open>message.Get(path)\<close> followed by one typed accessor. The interface is taken as a
  record of those methods, one field per accessor, indexed by the path:
  \<open>get_String m p\<close> is \<^verbatim>\<open>m.Get(p).String()\<close>, and so on.
\<close>

record TransitMessage =
  get_String :: "string \<Rightarrow> string"
  get_Int :: "string \<Rightarrow> int"
  get_Value :: "string \<Rightarrow> gvalue"
  get_Bool :: "string \<Rightarrow> bool"
  get_Exists :: "string \<Rightarrow> bool"

text \<open>
  \<^verbatim>\<open>Context\<close> (package \<^verbatim>\<open>context\<close>) is used through four getters; the record holds what
  each returns.
\<close>

record Context =
  GetID :: string
  GetTargetNodeID :: string
  AsMap :: payload
  GetMeta :: gvalue

text \<open>
  \<^verbatim>\<open>type pendingRequest struct { context *Context; resultChan *chan interface{} }\<close>.
  Both fields are pointers: \<open>None\<close> is \<^verbatim>\<open>nil\<close>. A channel is named by a number.
\<close>

record pendingRequest =
  context' :: "Context option"
  resultChan :: "nat option"

text \<open>Reading a Go map at a missing key yields the zero value of the element type.\<close>

definition zero_pendingRequest :: pendingRequest where
  "zero_pendingRequest = \<lparr>context' = None, resultChan = None\<rparr>"

definition map_index :: "(string \<rightharpoonup> pendingRequest) \<Rightarrow> string \<Rightarrow> pendingRequest" where
  "map_index m k = (case m k of None \<Rightarrow> zero_pendingRequest | Some r \<Rightarrow> r)"

text \<open>\<^verbatim>\<open>delete(m, k)\<close>: removes the key, a no-op when it is absent.\<close>

definition map_delete :: "(string \<rightharpoonup> pendingRequest) \<Rightarrow> string \<Rightarrow> (string \<rightharpoonup> pendingRequest)" where
  "map_delete m k = m(k := None)"

text \<open>
  The body of a goroutine started with \<^verbatim>\<open>go func() { (*request.resultChan) <- result }()\<close>:
  the captured channel pointer and the captured value.
\<close>

datatype goroutine = SendOn "nat option" gvalue

text \<open>
  \<^verbatim>\<open>TransitImpl\<close> with the collaborators it acts on. \<open>localNodeID\<close> is
  \<^verbatim>\<open>(*transit.broker.GetLocalNode()).GetID()\<close>; \<open>isConnected\<close> and \<open>pendingRequests\<close> are
  the struct's fields. The remaining fields record the effects on the outside:
  \<open>published\<close> the calls of \<^verbatim>\<open>transport.Publish(command, nodeID, message)\<close> in order
  (\<open>None\<close> is a \<^verbatim>\<open>nil\<close> message), \<open>sent\<close> the send statements executed on channels
  (channel, value) in order, \<open>spawned\<close> the goroutines started and not yet run,
  \<open>emitted\<close> the calls of \<^verbatim>\<open>GetLocalBus().EmitAsync(event, args)\<close>, and \<open>chans\<close> the
  number of channels made so far. The channels are unbuffered: a send ends when a
  receiver takes the value. The model records a send when it is executed and lets the
  sender go on, the caller of \<^verbatim>\<open>Request\<close> being the receiver on the channel it was
  given. Logger calls have no effect on this state and are left out.
\<close>

record TransitImpl =
  localNodeID :: string
  isConnected :: bool
  pendingRequests :: "string \<rightharpoonup> pendingRequest"
  published :: "(string \<times> string \<times> TransitMessage option) list"
  sent :: "(nat \<times> gvalue) list"
  spawned :: "goroutine list"
  emitted :: "(string \<times> payload list) list"
  chans :: nat

text \<open>
  A call either returns (\<open>Done\<close>, with its result and the state it leaves) or panics
  (\<open>Panic\<close>, with the message and the state at the moment of the panic).
\<close>

datatype 'a exec = Done 'a TransitImpl | Panic string TransitImpl

text \<open>\<^verbatim>\<open>make(chan interface{})\<close>: a fresh channel.\<close>

definition make_chan :: "TransitImpl \<Rightarrow> nat \<times> TransitImpl" where
  "make_chan s = (chans s, s\<lparr>chans := Suc (chans s)\<rparr>)"

text \<open>\<^verbatim>\<open>(*transit.transport).Publish(command, nodeID, message)\<close>.\<close>

definition Publish :: "string \<Rightarrow> string \<Rightarrow> TransitMessage option \<Rightarrow> TransitImpl \<Rightarrow> TransitImpl" where
  "Publish command nodeID message s = s\<lparr>published := published s @ [(command, nodeID, message)]\<rparr>"

text \<open>
  The serializer's \<^verbatim>\<open>MapToMessage(&payload)\<close> returns \<^verbatim>\<open>(message, err)\<close>. The
  serializer is a collaborator obtained from the broker, so it is a parameter of every
  operation that encodes: \<open>Inl err\<close> is a non-nil error, \<open>Inr message\<close> a success.
\<close>

type_synonym serializer = "payload \<Rightarrow> string + TransitMessage"

text \<open>The \<^verbatim>\<open>message\<close> of \<^verbatim>\<open>message, _ := MapToMessage(...)\<close>: \<^verbatim>\<open>nil\<close> on error.\<close>

definition message_or_nil :: "string + TransitMessage \<Rightarrow> TransitMessage option" where
  "message_or_nil r = (case r of Inl err \<Rightarrow> None | Inr message \<Rightarrow> Some message)"

section \<open>Request\<close>

text \<open>
  \<^verbatim>\<open>requestImpl\<close> (lines 144-168). \<^verbatim>\<open>checkMaxQueueSize\<close> has an empty body.
  \<^verbatim>\<open>payload["sender"] = id\<close> writes into the map \<^verbatim>\<open>AsMap()\<close> returned.
\<close>

definition requestImpl :: "serializer \<Rightarrow> Context \<Rightarrow> TransitImpl \<Rightarrow> nat exec" where
  "requestImpl MapToMessage ctx s =
     (let (resultChan, s1) = make_chan s;
          targetNodeID = GetTargetNodeID ctx;
          payload = AList.update ''sender'' (VStr (localNodeID s1)) (AsMap ctx)
      in case MapToMessage payload of
           Inl err \<Rightarrow>
             Panic (''Error trying to serialize the payload. Likely issues with the action params. Error: '' @ err) s1
         | Inr message \<Rightarrow>
             let s2 = s1\<lparr>pendingRequests :=
                          (pendingRequests s1)(GetID ctx \<mapsto>
                             \<lparr>context' = Some ctx, resultChan = Some resultChan\<rparr>)\<rparr>;
                 s3 = Publish ''REQ'' targetNodeID (Some message) s2
             in Done resultChan s3)"

text \<open>\<^verbatim>\<open>Request\<close> (lines 170-172) delegates to \<^verbatim>\<open>requestImpl\<close>.\<close>

definition Request :: "serializer \<Rightarrow> Context \<Rightarrow> TransitImpl \<Rightarrow> nat exec" where
  "Request MapToMessage ctx s = requestImpl MapToMessage ctx s"

text \<open>The payload \<^verbatim>\<open>requestImpl\<close> hands to the serializer.\<close>

definition request_payload :: "Context \<Rightarrow> TransitImpl \<Rightarrow> payload" where
  "request_payload ctx s = AList.update ''sender'' (VStr (localNodeID s)) (AsMap ctx)"

section \<open>Responses\<close>

text \<open>
  The closure returned by \<^verbatim>\<open>reponseHandler\<close> (lines 174-189). It reads the table at
  \<^verbatim>\<open>id\<close> without testing whether the key is there, deletes the key, and starts a
  goroutine that sends the value of \<^verbatim>\<open>data\<close> on the entry's channel. The closure itself
  always returns.
\<close>

definition reponseHandler :: "TransitMessage \<Rightarrow> TransitImpl \<Rightarrow> TransitImpl" where
  "reponseHandler message s =
     (let id = get_String message ''id'';
          sender = get_String message ''sender'';
          request = map_index (pendingRequests s) id;
          s1 = s\<lparr>pendingRequests := map_delete (pendingRequests s) id\<rparr>;
          result = get_Value message ''data''
      in s1\<lparr>spawned := spawned s1 @ [SendOn (resultChan request) result]\<rparr>)"

text \<open>
  Running a goroutine's body \<^verbatim>\<open>(*request.resultChan) <- result\<close>: dereferencing a
  \<^verbatim>\<open>nil\<close> pointer panics (and an unrecovered panic in a goroutine ends the process);
  otherwise the send statement is executed on the channel and recorded in \<open>sent\<close>.
\<close>

definition go_body :: "goroutine \<Rightarrow> TransitImpl \<Rightarrow> unit exec" where
  "go_body g s =
     (case g of SendOn p v \<Rightarrow>
        (case p of
           None \<Rightarrow> Panic ''invalid memory address or nil pointer dereference'' s
         | Some c \<Rightarrow> Done () (s\<lparr>sent := sent s @ [(c, v)]\<rparr>)))"

text \<open>
  A RES message handled to the end: the closure, then the body of the goroutine the
  closure started (the last one of \<open>spawned\<close>, which the closure has just appended, so
  the list is not empty).
\<close>

definition handle_RES :: "TransitMessage \<Rightarrow> TransitImpl \<Rightarrow> unit exec" where
  "handle_RES message s =
     (let s1 = reponseHandler message s
      in go_body (last (spawned s1)) (s1\<lparr>spawned := butlast (spawned s1)\<rparr>))"

section \<open>Node disconnect\<close>

text \<open>
  \<^verbatim>\<open>onNodeDisconnected(values ...interface{})\<close> (lines 59-65). \<^verbatim>\<open>values[0].(string)\<close>
  panics on an empty argument list and on an argument that is not a string. The table,
  which \<^verbatim>\<open>requestImpl\<close> keys by \<^verbatim>\<open>context.GetID()\<close>, is read at the node ID; the send
  comes before the delete.
\<close>

definition onNodeDisconnected :: "gvalue list \<Rightarrow> TransitImpl \<Rightarrow> unit exec" where
  "onNodeDisconnected values s =
     (case values of
        [] \<Rightarrow> Panic ''index out of range'' s
      | VStr nodeID # rest \<Rightarrow>
          (let pending = map_index (pendingRequests s) nodeID
           in case resultChan pending of
                None \<Rightarrow> Panic ''invalid memory address or nil pointer dereference'' s
              | Some c \<Rightarrow>
                  (let s1 = s\<lparr>sent := sent s @
                              [(c, VErr (''Node '' @ nodeID @ '' disconnected. Request being canceled.''))]\<rparr>;
                       s2 = s1\<lparr>pendingRequests := map_delete (pendingRequests s1) nodeID\<rparr>
                   in Done () s2))
      | other # rest \<Rightarrow> Panic ''interface conversion: interface {} is not string'' s)"

text \<open>The state a call leaves, whether it returned or panicked.\<close>

definition final_state :: "'a exec \<Rightarrow> TransitImpl" where
  "final_state r = (case r of Done x s \<Rightarrow> s | Panic msg s \<Rightarrow> s)"

definition panicked :: "'a exec \<Rightarrow> bool" where
  "panicked r = (case r of Done x s \<Rightarrow> False | Panic msg s \<Rightarrow> True)"

section \<open>Ping and pong\<close>

text \<open>
  \<^verbatim>\<open>SendPing\<close> (lines 254-262); \<open>now\<close> is \<^verbatim>\<open>time.Now().Unix()\<close>. The error of
  \<^verbatim>\<open>MapToMessage\<close> is discarded and the message is published either way.
\<close>

definition SendPing :: "serializer \<Rightarrow> int \<Rightarrow> TransitImpl \<Rightarrow> TransitImpl" where
  "SendPing MapToMessage now s =
     (let ping = [];
          sender = localNodeID s;
          ping = AList.update ''sender'' (VStr sender) ping;
          ping = AList.update ''time'' (VInt now) ping;
          pingMessage = message_or_nil (MapToMessage ping)
      in Publish ''PING'' sender pingMessage s)"

text \<open>The closure returned by \<^verbatim>\<open>pingHandler\<close> (lines 264-275).\<close>

definition pingHandler :: "serializer \<Rightarrow> int \<Rightarrow> TransitMessage \<Rightarrow> TransitImpl \<Rightarrow> TransitImpl" where
  "pingHandler MapToMessage now message s =
     (let pong = [];
          sender = get_String message ''sender'';
          pong = AList.update ''sender'' (VStr sender) pong;
          pong = AList.update ''time'' (VInt (get_Int message ''time'')) pong;
          pong = AList.update ''arrived'' (VInt now) pong;
          pongMessage = message_or_nil (MapToMessage pong)
      in Publish ''PONG'' sender pongMessage s)"

text \<open>int64 subtraction wraps around.\<close>

definition int64_sub :: "int \<Rightarrow> int \<Rightarrow> int" where
  "int64_sub a b = signed_take_bit 63 (a - b)"

text \<open>
  \<^verbatim>\<open>float64(n)\<close> of an int64. The conversion is exact for \<open>\<bar>n\<bar> \<le> 2^53\<close>, and float64
  addition, subtraction and halving are exact while the results are multiples of 1/2
  below \<open>2^52\<close> in magnitude; the theorems on \<^verbatim>\<open>pongHandler\<close> are stated for clock
  readings below \<open>2^51\<close> seconds, where the float64 computation is this rational one.
\<close>

definition float64 :: "int \<Rightarrow> rat" where
  "float64 n = of_int n"

text \<open>Go's \<^verbatim>\<open>math.Round\<close>: the nearest integer, halves rounded away from zero.\<close>

definition math_Round :: "rat \<Rightarrow> rat" where
  "math_Round x = (if x < 0 then - of_int \<lfloor>- x + 1 / 2\<rfloor> else of_int \<lfloor>x + 1 / 2\<rfloor>)"

text \<open>Rounding halves up, the convention the specification names.\<close>

definition round_half_up :: "rat \<Rightarrow> rat" where
  "round_half_up x = of_int \<lfloor>x + 1 / 2\<rfloor>"

text \<open>
  \<^verbatim>\<open>EmitAsync(event, args)\<close> on the local bus.
\<close>

definition EmitAsync :: "string \<Rightarrow> payload list \<Rightarrow> TransitImpl \<Rightarrow> TransitImpl" where
  "EmitAsync event args s = s\<lparr>emitted := emitted s @ [(event, args)]\<rparr>"

text \<open>The closure returned by \<^verbatim>\<open>pongHandler\<close> (lines 277-292).\<close>

definition pongHandler :: "int \<Rightarrow> TransitMessage \<Rightarrow> TransitImpl \<Rightarrow> TransitImpl" where
  "pongHandler now message s =
     (let elapsed = int64_sub now (get_Int message ''time'');
          arrived = get_Int message ''arrived'';
          timeDiff = math_Round (float64 now - float64 arrived - float64 elapsed / 2);
          mapValue = [];
          mapValue = AList.update ''nodeID'' (VStr (get_String message ''sender'')) mapValue;
          mapValue = AList.update ''elapsedTime'' (VInt elapsed) mapValue;
          mapValue = AList.update ''timeDiff'' (VFloat timeDiff) mapValue
      in EmitAsync ''$node.pong'' [mapValue] s)"

section \<open>The two handlers, statement by statement\<close>












section \<open>The payload view (package serializer)\<close>

text \<open>\<^verbatim>\<open>time.Time\<close>, as seconds from its zero value.\<close>

datatype go_time = GoTime int

definition zero_time :: go_time where
  "zero_time = GoTime 0"

text \<open>
  Modelled from the spec: \<^verbatim>\<open>gjson.Result\<close>, the decoded view that \<^verbatim>\<open>JSONPayload\<close>
  wraps (package \<^verbatim>\<open>github.com/tidwall/gjson\<close> is not among the sources). Section 4.1: a
  view is read-only and path-addressable, and a lookup on a missing path returns a
  non-existent view. A view is therefore either non-existent or a decoded value.
\<close>

datatype Result = NonExistent | Decoded gvalue

text \<open>
  Modelled from the spec: what the package does with a value that exists, which the
  specification leaves to the codec: finding the child at a path, and converting a
  decoded value to each scalar type. These are parameters of the view's operations.
\<close>

record gjson =
  lookup :: "gvalue \<Rightarrow> string \<Rightarrow> gvalue option"
  toString :: "gvalue \<Rightarrow> string"
  toInt :: "gvalue \<Rightarrow> int"
  toUint :: "gvalue \<Rightarrow> nat"
  toFloat :: "gvalue \<Rightarrow> rat"
  toBool :: "gvalue \<Rightarrow> bool"
  toTime :: "gvalue \<Rightarrow> go_time"

text \<open>
  Modelled from the spec: \<^verbatim>\<open>Result.Get\<close>, \<^verbatim>\<open>Result.Exists\<close> and the typed accessors of
  \<^verbatim>\<open>gjson.Result\<close>. Section 4.1: the non-existent view reports false for \<^verbatim>\<open>Exists()\<close>
  and yields zero-valued scalars, and no accessor fails.
\<close>

definition Result_Get :: "gjson \<Rightarrow> Result \<Rightarrow> string \<Rightarrow> Result" where
  "Result_Get g r path =
     (case r of
        NonExistent \<Rightarrow> NonExistent
      | Decoded v \<Rightarrow> (case lookup g v path of None \<Rightarrow> NonExistent | Some v' \<Rightarrow> Decoded v'))"

definition Result_Exists :: "Result \<Rightarrow> bool" where
  "Result_Exists r = (case r of NonExistent \<Rightarrow> False | Decoded v \<Rightarrow> True)"

definition Result_Value :: "Result \<Rightarrow> gvalue" where
  "Result_Value r = (case r of NonExistent \<Rightarrow> VNil | Decoded v \<Rightarrow> v)"

definition Result_String :: "gjson \<Rightarrow> Result \<Rightarrow> string" where
  "Result_String g r = (case r of NonExistent \<Rightarrow> [] | Decoded v \<Rightarrow> toString g v)"

definition Result_Int :: "gjson \<Rightarrow> Result \<Rightarrow> int" where
  "Result_Int g r = (case r of NonExistent \<Rightarrow> 0 | Decoded v \<Rightarrow> toInt g v)"

definition Result_Uint :: "gjson \<Rightarrow> Result \<Rightarrow> nat" where
  "Result_Uint g r = (case r of NonExistent \<Rightarrow> 0 | Decoded v \<Rightarrow> toUint g v)"

definition Result_Float :: "gjson \<Rightarrow> Result \<Rightarrow> rat" where
  "Result_Float g r = (case r of NonExistent \<Rightarrow> 0 | Decoded v \<Rightarrow> toFloat g v)"

definition Result_Bool :: "gjson \<Rightarrow> Result \<Rightarrow> bool" where
  "Result_Bool g r = (case r of NonExistent \<Rightarrow> False | Decoded v \<Rightarrow> toBool g v)"

definition Result_Time :: "gjson \<Rightarrow> Result \<Rightarrow> go_time" where
  "Result_Time g r = (case r of NonExistent \<Rightarrow> zero_time | Decoded v \<Rightarrow> toTime g v)"

text \<open>
  \<^verbatim>\<open>type JSONPayload struct { result gjson.Result; logger *log.Entry }\<close> and its methods
  (\<^verbatim>\<open>part_000\<close>, lines 56-84 and 219-241), each a call of the wrapped view. \<^verbatim>\<open>Int()\<close>
  converts the int64 to \<^verbatim>\<open>int\<close>, 64 bits wide here.
\<close>

record JSONPayload =
  result :: Result

definition JSONPayload_Get :: "gjson \<Rightarrow> JSONPayload \<Rightarrow> string \<Rightarrow> JSONPayload" where
  "JSONPayload_Get g payload path =
     (let result = Result_Get g (result payload) path;
          message = \<lparr>result = result\<rparr>
      in message)"

definition JSONPayload_Exists :: "JSONPayload \<Rightarrow> bool" where
  "JSONPayload_Exists payload = Result_Exists (result payload)"

definition JSONPayload_Value :: "JSONPayload \<Rightarrow> gvalue" where
  "JSONPayload_Value payload = Result_Value (result payload)"

definition JSONPayload_Int :: "gjson \<Rightarrow> JSONPayload \<Rightarrow> int" where
  "JSONPayload_Int g payload = signed_take_bit 63 (Result_Int g (result payload))"

definition JSONPayload_Int64 :: "gjson \<Rightarrow> JSONPayload \<Rightarrow> int" where
  "JSONPayload_Int64 g payload = Result_Int g (result payload)"

definition JSONPayload_Uint :: "gjson \<Rightarrow> JSONPayload \<Rightarrow> nat" where
  "JSONPayload_Uint g payload = Result_Uint g (result payload)"

definition JSONPayload_Time :: "gjson \<Rightarrow> JSONPayload \<Rightarrow> go_time" where
  "JSONPayload_Time g payload = Result_Time g (result payload)"

definition JSONPayload_Bool :: "gjson \<Rightarrow> JSONPayload \<Rightarrow> bool" where
  "JSONPayload_Bool g payload = Result_Bool g (result payload)"

definition JSONPayload_Float :: "gjson \<Rightarrow> JSONPayload \<Rightarrow> rat" where
  "JSONPayload_Float g payload = Result_Float g (result payload)"

definition JSONPayload_String :: "gjson \<Rightarrow> JSONPayload \<Rightarrow> string" where
  "JSONPayload_String g payload = Result_String g (result payload)"

text \<open>A path is present in a payload when the payload exists and the lookup finds a child.\<close>

definition present :: "gjson \<Rightarrow> JSONPayload \<Rightarrow> string \<Rightarrow> bool" where
  "present g payload path =
     (case result payload of
        NonExistent \<Rightarrow> False
      | Decoded v \<Rightarrow> (case lookup g v path of None \<Rightarrow> False | Some v' \<Rightarrow> True))"

section \<open>Concrete collaborators and inputs\<close>

text \<open>
  A message over a fixed list of decoded fields, implementing the accessors of
  \<^verbatim>\<open>TransitMessage\<close>: a field that is absent, or whose value is of another type than
  the accessor's, reads as the zero value of the accessor's type.
\<close>

definition fields_message :: "payload \<Rightarrow> TransitMessage" where
  "fields_message body =
     \<lparr>get_String = (\<lambda>p. case map_of body p of Some (VStr x) \<Rightarrow> x | _ \<Rightarrow> []),
      get_Int = (\<lambda>p. case map_of body p of Some (VInt i) \<Rightarrow> i | _ \<Rightarrow> 0),
      get_Value = (\<lambda>p. case map_of body p of Some v \<Rightarrow> v | None \<Rightarrow> VNil),
      get_Bool = (\<lambda>p. case map_of body p of Some (VBool b) \<Rightarrow> b | _ \<Rightarrow> False),
      get_Exists = (\<lambda>p. case map_of body p of Some v \<Rightarrow> True | None \<Rightarrow> False)\<rparr>"

text \<open>What a codec can represent: everything but a channel, at any depth.\<close>

fun encodable :: "gvalue \<Rightarrow> bool" where
  "encodable (VChan c) = False"
| "encodable (VList xs) = list_all encodable xs"
| "encodable (VMap kvs) = list_all (\<lambda>kv. encodable (snd kv)) kvs"
| "encodable v = True"

text \<open>
  A serializer that fails with an encoding error on a payload holding a value that
  cannot be represented, and otherwise yields the message with the payload's fields.
\<close>

definition fields_serializer :: serializer where
  "fields_serializer p =
     (if list_all (\<lambda>kv. encodable (snd kv)) p then Inr (fields_message p)
      else Inl ''EncodingError'')"

text \<open>Concrete inputs used to exercise the theorems.\<close>

definition transit0 :: TransitImpl where
  "transit0 = \<lparr>localNodeID = ''nodeA'', isConnected = True, pendingRequests = Map.empty,
               published = [], sent = [], spawned = [], emitted = [], chans = 0\<rparr>"

definition ctx1 :: Context where
  "ctx1 = \<lparr>GetID = ''ctx-1'', GetTargetNodeID = ''nodeB'',
           AsMap = [(''action'', VStr ''math.add''), (''params'', VMap [(''a'', VInt 1), (''b'', VInt 2)])],
           GetMeta = VNil\<rparr>"

text \<open>A context whose parameters hold a channel, which no codec can represent.\<close>

definition ctx_bad :: Context where
  "ctx_bad = \<lparr>GetID = ''ctx-2'', GetTargetNodeID = ''nodeB'',
           AsMap = [(''action'', VStr ''math.add''), (''params'', VChan 7)],
           GetMeta = VNil\<rparr>"

text \<open>The engine of node A with one call outstanding: \<open>ctx1\<close>, to node B, on channel 0.\<close>

definition transit1 :: TransitImpl where
  "transit1 = \<lparr>localNodeID = ''nodeA'', isConnected = True,
               pendingRequests = [''ctx-1'' \<mapsto> \<lparr>context' = Some ctx1, resultChan = Some 0\<rparr>],
               published = [], sent = [], spawned = [], emitted = [], chans = 1\<rparr>"

text \<open>RES messages from node B: a success, a failure, and one for an unknown call.\<close>

definition res_ok :: TransitMessage where
  "res_ok = fields_message [(''sender'', VStr ''nodeB''), (''id'', VStr ''ctx-1''),
                            (''success'', VBool True), (''data'', VFloat 3)]"

definition res_failed :: TransitMessage where
  "res_failed = fields_message [(''sender'', VStr ''nodeB''), (''id'', VStr ''ctx-1''),
                                (''success'', VBool False), (''error'', VStr ''boom''),
                                (''data'', VFloat 3)]"

definition res_unknown :: TransitMessage where
  "res_unknown = fields_message [(''sender'', VStr ''nodeB''), (''id'', VStr ''ctx-9''),
                                 (''success'', VBool True), (''data'', VFloat 3)]"




text \<open>
  PONG messages for a PING sent at 1000: node B's clock read 1001, or 1003, on arrival.
  A PING from node B.
\<close>

definition pong_late :: TransitMessage where
  "pong_late = fields_message [(''sender'', VStr ''nodeB''), (''time'', VInt 1000), (''arrived'', VInt 1001)]"

definition pong_ahead :: TransitMessage where
  "pong_ahead = fields_message [(''sender'', VStr ''nodeB''), (''time'', VInt 1000), (''arrived'', VInt 1003)]"

definition ping_from_B :: TransitMessage where
  "ping_from_B = fields_message [(''sender'', VStr ''nodeB''), (''time'', VInt 1000)]"

text \<open>
  A codec whose paths are the keys of a decoded map and whose conversions read a value
  of the matching type; the decoded payload \<^verbatim>\<open>{"a": 1, "b": "two"}\<close>.
\<close>

definition keys_gjson :: gjson where
  "keys_gjson =
     \<lparr>lookup = (\<lambda>v path. case v of VMap kvs \<Rightarrow> map_of kvs path | _ \<Rightarrow> None),
      toString = (\<lambda>v. case v of VStr x \<Rightarrow> x | _ \<Rightarrow> []),
      toInt = (\<lambda>v. case v of VInt i \<Rightarrow> i | _ \<Rightarrow> 0),
      toUint = (\<lambda>v. case v of VInt i \<Rightarrow> nat i | _ \<Rightarrow> 0),
      toFloat = (\<lambda>v. case v of VFloat x \<Rightarrow> x | _ \<Rightarrow> 0),
      toBool = (\<lambda>v. case v of VBool b \<Rightarrow> b | _ \<Rightarrow> False),
      toTime = (\<lambda>v. zero_time)\<rparr>"

definition payload_ab :: JSONPayload where
  "payload_ab = \<lparr>result = Decoded (VMap [(''a'', VInt 1), (''b'', VStr ''two'')])\<rparr>"

section \<open>Facts about the handlers\<close>

lemma handle_RES_found:
  "pendingRequests s (get_String message ''id'') = Some r \<Longrightarrow> resultChan r = Some c \<Longrightarrow>
   handle_RES message s =
     Done () (s\<lparr>pendingRequests := map_delete (pendingRequests s) (get_String message ''id''),
               sent := sent s @ [(c, get_Value message ''data'')]\<rparr>)"
  by (simp add: handle_RES_def reponseHandler_def go_body_def map_index_def Let_def)

lemma handle_RES_missing:
  "pendingRequests s (get_String message ''id'') = None \<Longrightarrow>
   handle_RES message s = Panic ''invalid memory address or nil pointer dereference'' s"
  by (simp add: handle_RES_def reponseHandler_def go_body_def map_index_def Let_def
      zero_pendingRequest_def map_delete_def fun_upd_idem)

lemma handle_RES_cong:
  "get_String m' ''id'' = get_String m ''id'' \<Longrightarrow> get_Value m' ''data'' = get_Value m ''data'' \<Longrightarrow>
   handle_RES m' s = handle_RES m s"
  by (simp add: handle_RES_def reponseHandler_def Let_def)

lemma onNodeDisconnected_missing:
  "pendingRequests s nodeID = None \<Longrightarrow>
   onNodeDisconnected [VStr nodeID] s = Panic ''invalid memory address or nil pointer dereference'' s"
  by (simp add: onNodeDisconnected_def map_index_def zero_pendingRequest_def)

lemma onNodeDisconnected_found:
  "pendingRequests s nodeID = Some r \<Longrightarrow> resultChan r = Some c \<Longrightarrow>
   onNodeDisconnected [VStr nodeID] s =
     Done () (s\<lparr>sent := sent s @ [(c, VErr (''Node '' @ nodeID @ '' disconnected. Request being canceled.''))],
               pendingRequests := map_delete (pendingRequests s) nodeID\<rparr>)"
  by (simp add: onNodeDisconnected_def map_index_def Let_def)

lemma res_fields:
  "get_String res_ok ''id'' = ''ctx-1''" "get_Value res_ok ''data'' = VFloat 3"
  "get_Bool res_ok ''success'' = True" "get_Exists res_ok ''error'' = False"
  "get_String res_failed ''id'' = ''ctx-1''" "get_Value res_failed ''data'' = VFloat 3"
  "get_Bool res_failed ''success'' = False" "get_Exists res_failed ''error'' = True"
  "get_String res_unknown ''id'' = ''ctx-9''" "get_Value res_unknown ''data'' = VFloat 3"
  by (simp_all add: res_ok_def res_failed_def res_unknown_def fields_message_def)

lemma transit1_fields:
  "pendingRequests transit1 ''ctx-1'' = Some \<lparr>context' = Some ctx1, resultChan = Some 0\<rparr>"
  "pendingRequests transit1 ''ctx-9'' = None"
  "pendingRequests transit1 ''nodeB'' = None"
  "sent transit1 = []"
  by (simp_all add: transit1_def)









lemma int64_sub_in_range:
  "- (2 ^ 63) \<le> a - b \<Longrightarrow> a - b < 2 ^ 63 \<Longrightarrow> int64_sub a b = a - b"
  by (simp add: int64_sub_def signed_take_bit_int_eq_self)

lemma pong_fields:
  "get_String pong_late ''sender'' = ''nodeB''" "get_Int pong_late ''time'' = 1000" "get_Int pong_late ''arrived'' = 1001"
  "get_String pong_ahead ''sender'' = ''nodeB''" "get_Int pong_ahead ''time'' = 1000" "get_Int pong_ahead ''arrived'' = 1003"
  by (simp_all add: pong_late_def pong_ahead_def fields_message_def)

section \<open>Request: serialization failure and success\<close>

text \<open>
  C4. When \<^verbatim>\<open>MapToMessage\<close> returns an error for the call's payload, \<^verbatim>\<open>Request\<close>
  panics (it does not return a channel or an error value), and at the panic no pending
  entry has been registered and nothing has been published. When \<^verbatim>\<open>MapToMessage\<close>
  succeeds, \<^verbatim>\<open>Request\<close> returns a fresh channel, the table holds an entry under the
  context's ID with that channel, and one REQ message, the encoded payload, has been
  published to the context's target node.
\<close>

theorem Request_serialization:
  "(MapToMessage (request_payload ctx s) = Inl err \<longrightarrow>
      Request MapToMessage ctx s =
        Panic (''Error trying to serialize the payload. Likely issues with the action params. Error: '' @ err)
              (s\<lparr>chans := Suc (chans s)\<rparr>)
      \<and> pendingRequests (final_state (Request MapToMessage ctx s)) = pendingRequests s
      \<and> published (final_state (Request MapToMessage ctx s)) = published s)
   \<and> (MapToMessage (request_payload ctx s) = Inr message \<longrightarrow>
      (\<exists>s'. Request MapToMessage ctx s = Done (chans s) s'
         \<and> pendingRequests s' =
             (pendingRequests s)(GetID ctx \<mapsto> \<lparr>context' = Some ctx, resultChan = Some (chans s)\<rparr>)
         \<and> published s' = published s @ [(''REQ'', GetTargetNodeID ctx, Some message)]))"
  by (simp add: Request_def requestImpl_def request_payload_def make_chan_def Publish_def
      final_state_def)

theorem Request_serialization_witness:
  "fields_serializer (request_payload ctx_bad transit0) = Inl ''EncodingError''
   \<and> panicked (Request fields_serializer ctx_bad transit0)
   \<and> pendingRequests (final_state (Request fields_serializer ctx_bad transit0)) = Map.empty
   \<and> published (final_state (Request fields_serializer ctx_bad transit0)) = []
   \<and> fields_serializer (request_payload ctx1 transit0) = Inr (fields_message (request_payload ctx1 transit0))
   \<and> \<not> panicked (Request fields_serializer ctx1 transit0)
   \<and> pendingRequests (final_state (Request fields_serializer ctx1 transit0)) ''ctx-1''
        = Some \<lparr>context' = Some ctx1, resultChan = Some 0\<rparr>
   \<and> published (final_state (Request fields_serializer ctx1 transit0))
        = [(''REQ'', ''nodeB'', Some (fields_message (request_payload ctx1 transit0)))]"
proof -
  have bad: "fields_serializer (request_payload ctx_bad transit0) = Inl ''EncodingError''"
    by (simp add: fields_serializer_def request_payload_def ctx_bad_def transit0_def)
  have ok: "fields_serializer (request_payload ctx1 transit0) = Inr (fields_message (request_payload ctx1 transit0))"
    by (simp add: fields_serializer_def request_payload_def ctx1_def transit0_def)
  have f: "pendingRequests transit0 = Map.empty" "published transit0 = []" "chans transit0 = 0"
    by (simp_all add: transit0_def)
  from Request_serialization [of fields_serializer ctx_bad transit0 "''EncodingError''"] bad
  have 0: "Request fields_serializer ctx_bad transit0 =
        Panic (''Error trying to serialize the payload. Likely issues with the action params. Error: '' @ ''EncodingError'')
              (transit0\<lparr>chans := Suc (chans transit0)\<rparr>)
      \<and> pendingRequests (final_state (Request fields_serializer ctx_bad transit0)) = pendingRequests transit0
      \<and> published (final_state (Request fields_serializer ctx_bad transit0)) = published transit0"
    by blast
  have 1: "panicked (Request fields_serializer ctx_bad transit0)
     \<and> pendingRequests (final_state (Request fields_serializer ctx_bad transit0)) = Map.empty
     \<and> published (final_state (Request fields_serializer ctx_bad transit0)) = []"
    using 0 f by (simp add: panicked_def final_state_def)
  from Request_serialization [of fields_serializer ctx1 transit0 _ "fields_message (request_payload ctx1 transit0)"] ok
  obtain s' where 2: "Request fields_serializer ctx1 transit0 = Done (chans transit0) s'"
    "pendingRequests s' = (pendingRequests transit0)(GetID ctx1 \<mapsto> \<lparr>context' = Some ctx1, resultChan = Some (chans transit0)\<rparr>)"
    "published s' = published transit0 @ [(''REQ'', GetTargetNodeID ctx1, Some (fields_message (request_payload ctx1 transit0)))]"
    by blast
  have 3: "\<not> panicked (Request fields_serializer ctx1 transit0)
   \<and> pendingRequests (final_state (Request fields_serializer ctx1 transit0)) ''ctx-1''
        = Some \<lparr>context' = Some ctx1, resultChan = Some 0\<rparr>
   \<and> published (final_state (Request fields_serializer ctx1 transit0))
        = [(''REQ'', ''nodeB'', Some (fields_message (request_payload ctx1 transit0)))]"
    using 2 f by (simp add: panicked_def final_state_def ctx1_def)
  show ?thesis using bad ok 1 3 by simp
qed

section \<open>Responses: matched and unmatched\<close>

text \<open>
  C10. For a RES message whose \<^verbatim>\<open>id\<close> is a key of the pending table, the value sent on
  the entry's channel is the raw \<^verbatim>\<open>Value()\<close> of the message's \<^verbatim>\<open>data\<close> field, and
  handling the message depends on nothing but its \<^verbatim>\<open>id\<close> and \<^verbatim>\<open>data\<close>: a message
  that differs in \<^verbatim>\<open>success\<close>, in an \<^verbatim>\<open>error\<close> field or anywhere else is handled
  identically, so a failed response reaches the caller as an ordinary result value.
\<close>

theorem reponseHandler_ignores_success:
  "pendingRequests s (get_String message ''id'') = Some r \<Longrightarrow> resultChan r = Some c \<Longrightarrow>
   handle_RES message s =
     Done () (s\<lparr>pendingRequests := map_delete (pendingRequests s) (get_String message ''id''),
               sent := sent s @ [(c, get_Value message ''data'')]\<rparr>)
   \<and> (\<forall>message'. get_String message' ''id'' = get_String message ''id''
                 \<and> get_Value message' ''data'' = get_Value message ''data''
          \<longrightarrow> handle_RES message' s = handle_RES message s)"
proof (intro conjI allI impI)
  assume "pendingRequests s (get_String message ''id'') = Some r" "resultChan r = Some c"
  then show "handle_RES message s =
     Done () (s\<lparr>pendingRequests := map_delete (pendingRequests s) (get_String message ''id''),
               sent := sent s @ [(c, get_Value message ''data'')]\<rparr>)"
    by (rule handle_RES_found)
next
  fix message' :: TransitMessage
  assume "get_String message' ''id'' = get_String message ''id''
                 \<and> get_Value message' ''data'' = get_Value message ''data''"
  then show "handle_RES message' s = handle_RES message s"
    by (intro handle_RES_cong) simp_all
qed

theorem reponseHandler_ignores_success_witness:
  "get_Bool res_failed ''success'' = False \<and> get_Exists res_failed ''error'' = True
   \<and> get_Bool res_ok ''success'' = True \<and> get_Exists res_ok ''error'' = False
   \<and> handle_RES res_failed transit1 =
        Done () (transit1\<lparr>pendingRequests := map_delete (pendingRequests transit1) ''ctx-1'',
                          sent := [(0, VFloat 3)]\<rparr>)
   \<and> handle_RES res_ok transit1 = handle_RES res_failed transit1"
proof -
  have r: "resultChan \<lparr>context' = Some ctx1, resultChan = Some 0\<rparr> = Some 0" by simp
  have p: "pendingRequests transit1 (get_String res_failed ''id'') = Some \<lparr>context' = Some ctx1, resultChan = Some 0\<rparr>"
    by (simp add: res_fields transit1_fields)
  from reponseHandler_ignores_success [OF p r]
  have a: "handle_RES res_failed transit1 =
     Done () (transit1\<lparr>pendingRequests := map_delete (pendingRequests transit1) (get_String res_failed ''id''),
               sent := sent transit1 @ [(0, get_Value res_failed ''data'')]\<rparr>)"
    and b: "\<forall>message'. get_String message' ''id'' = get_String res_failed ''id''
                 \<and> get_Value message' ''data'' = get_Value res_failed ''data''
          \<longrightarrow> handle_RES message' transit1 = handle_RES res_failed transit1"
    by blast+
  have c: "handle_RES res_ok transit1 = handle_RES res_failed transit1"
    by (rule b [rule_format]) (simp add: res_fields)
  from a have a': "handle_RES res_failed transit1 =
        Done () (transit1\<lparr>pendingRequests := map_delete (pendingRequests transit1) ''ctx-1'',
                          sent := [(0, VFloat 3)]\<rparr>)"
    by (simp add: res_fields transit1_fields)
  show ?thesis using a' c by (simp add: res_fields)
qed

text \<open>
  C2. For a RES message whose \<^verbatim>\<open>id\<close> is not a key of the pending table, the closure
  leaves the table as it is and sends nothing, but it starts a goroutine holding the
  \<^verbatim>\<open>nil\<close> channel pointer of the zero-value entry, and that goroutine panics when it
  runs: the message is not a no-op.
\<close>

theorem reponseHandler_unmatched_panics:
  "pendingRequests s (get_String message ''id'') = None \<Longrightarrow>
   reponseHandler message s =
     s\<lparr>spawned := spawned s @ [SendOn None (get_Value message ''data'')]\<rparr>
   \<and> handle_RES message s = Panic ''invalid memory address or nil pointer dereference'' s"
  by (simp add: handle_RES_missing)
     (simp add: reponseHandler_def map_index_def Let_def zero_pendingRequest_def map_delete_def fun_upd_idem)

theorem reponseHandler_unmatched_panics_witness:
  "pendingRequests transit1 (get_String res_unknown ''id'') = None
   \<and> reponseHandler res_unknown transit1 = transit1\<lparr>spawned := [SendOn None (VFloat 3)]\<rparr>
   \<and> handle_RES res_unknown transit1 = Panic ''invalid memory address or nil pointer dereference'' transit1"
proof -
  have p: "pendingRequests transit1 (get_String res_unknown ''id'') = None"
    by (simp add: res_fields transit1_fields)
  have sp: "spawned transit1 = []" by (simp add: transit1_def)
  from reponseHandler_unmatched_panics [OF p] show ?thesis
    using p by (simp add: res_fields sp)
qed

section \<open>Node disconnect\<close>

text \<open>
  C3. \<^verbatim>\<open>onNodeDisconnected\<close> reads the table at the disconnected node's ID and at
  nothing else. When no entry has that ID as its key it panics, whichever nodes the
  pending calls target, and leaves every entry in place; when an entry has it as its
  key, that one entry is sent an error and deleted, whatever node it targets.
\<close>

theorem onNodeDisconnected_keyed_by_nodeID:
  "(pendingRequests s nodeID = None \<longrightarrow>
      onNodeDisconnected [VStr nodeID] s = Panic ''invalid memory address or nil pointer dereference'' s)
   \<and> (pendingRequests s nodeID = Some \<lparr>context' = ctx, resultChan = Some c\<rparr> \<longrightarrow>
      onNodeDisconnected [VStr nodeID] s =
        Done () (s\<lparr>sent := sent s @ [(c, VErr (''Node '' @ nodeID @ '' disconnected. Request being canceled.''))],
                  pendingRequests := map_delete (pendingRequests s) nodeID\<rparr>))"
proof (intro conjI impI)
  assume "pendingRequests s nodeID = None"
  then show "onNodeDisconnected [VStr nodeID] s = Panic ''invalid memory address or nil pointer dereference'' s"
    by (rule onNodeDisconnected_missing)
next
  assume "pendingRequests s nodeID = Some \<lparr>context' = ctx, resultChan = Some c\<rparr>"
  then show "onNodeDisconnected [VStr nodeID] s =
        Done () (s\<lparr>sent := sent s @ [(c, VErr (''Node '' @ nodeID @ '' disconnected. Request being canceled.''))],
                  pendingRequests := map_delete (pendingRequests s) nodeID\<rparr>)"
    by (rule onNodeDisconnected_found) simp
qed

theorem onNodeDisconnected_keyed_by_nodeID_witness:
  "GetTargetNodeID ctx1 = ''nodeB''
   \<and> pendingRequests transit1 ''ctx-1'' = Some \<lparr>context' = Some ctx1, resultChan = Some 0\<rparr>
   \<and> pendingRequests transit1 ''nodeB'' = None
   \<and> onNodeDisconnected [VStr ''nodeB''] transit1 =
        Panic ''invalid memory address or nil pointer dereference'' transit1
   \<and> onNodeDisconnected [VStr ''ctx-1''] transit1 =
        Done () (transit1\<lparr>sent := [(0, VErr ''Node ctx-1 disconnected. Request being canceled.'')],
                  pendingRequests := map_delete (pendingRequests transit1) ''ctx-1''\<rparr>)"
proof -
  from onNodeDisconnected_keyed_by_nodeID [of transit1 "''nodeB''"]
  have a: "onNodeDisconnected [VStr ''nodeB''] transit1 =
        Panic ''invalid memory address or nil pointer dereference'' transit1"
    by (simp add: transit1_fields)
  from onNodeDisconnected_keyed_by_nodeID [of transit1 "''ctx-1''" "Some ctx1" 0]
  have b: "onNodeDisconnected [VStr ''ctx-1''] transit1 =
        Done () (transit1\<lparr>sent := [(0, VErr ''Node ctx-1 disconnected. Request being canceled.'')],
                  pendingRequests := map_delete (pendingRequests transit1) ''ctx-1''\<rparr>)"
    by (simp add: transit1_fields)
  show ?thesis using a b by (simp add: transit1_fields ctx1_def)
qed

section \<open>A response racing a disconnect\<close>




section \<open>Ping and pong\<close>

text \<open>
  C5, as stated, fails: for a PING sent at 1000 that arrived at 1003 on the other node's
  clock and whose PONG is handled at 1003, the handler emits \<open>timeDiff = -2\<close>, where
  rounding \<open>-3/2\<close> half up gives \<open>-1\<close>.
\<close>

theorem pongHandler_round_half_up_counterexample:
  "emitted (pongHandler 1003 pong_ahead transit0) =
     [(''$node.pong'', [[(''nodeID'', VStr ''nodeB''), (''elapsedTime'', VInt 3), (''timeDiff'', VFloat (- 2))]])]
   \<and> round_half_up (1003 - 1003 - (1003 - 1000) / 2) = - 1"
  by (simp add: pongHandler_def EmitAsync_def Let_def pong_fields int64_sub_def float64_def
      math_Round_def round_half_up_def transit0_def signed_take_bit_int_eq_self)

text \<open>
  C5, amended. For a PONG message with \<open>time = T0\<close> and \<open>arrived = T1\<close> handled at
  local time \<open>T2\<close> (clock readings from 0 up to \<open>2^51\<close> seconds), the handler emits one
  \<^verbatim>\<open>$node.pong\<close> event whose payload maps \<open>nodeID\<close> to the message's sender,
  \<open>elapsedTime\<close> to \<open>T2 - T0\<close> and \<open>timeDiff\<close> to \<open>T2 - T1 - (T2 - T0)/2\<close> rounded
  to the nearest integer with halves away from zero (\<^verbatim>\<open>math.Round\<close>); for
  \<open>T0 = 1000\<close>, \<open>T1 = 1001\<close>, \<open>T2 = 1003\<close> that is \<open>elapsedTime = 3\<close> and
  \<open>timeDiff = 1\<close>.
\<close>

theorem pongHandler_skew:
  assumes "0 \<le> get_Int message ''time''" "get_Int message ''time'' < 2 ^ 51"
      and "0 \<le> get_Int message ''arrived''" "get_Int message ''arrived'' < 2 ^ 51"
      and "0 \<le> now" "now < 2 ^ 51"
  shows "pongHandler now message s =
     s\<lparr>emitted := emitted s @
        [(''$node.pong'',
          [[(''nodeID'', VStr (get_String message ''sender'')),
            (''elapsedTime'', VInt (now - get_Int message ''time'')),
            (''timeDiff'', VFloat (math_Round (of_int now - of_int (get_Int message ''arrived'')
                                      - of_int (now - get_Int message ''time'') / 2)))]])]\<rparr>"
proof -
  have "int64_sub now (get_Int message ''time'') = now - get_Int message ''time''"
    using assms by (intro int64_sub_in_range) simp_all
  then show ?thesis
    by (simp add: pongHandler_def EmitAsync_def Let_def float64_def)
qed

theorem pongHandler_skew_witness:
  "emitted (pongHandler 1003 pong_late transit0) =
     [(''$node.pong'', [[(''nodeID'', VStr ''nodeB''), (''elapsedTime'', VInt 3), (''timeDiff'', VFloat 1)]])]"
proof -
  have "pongHandler 1003 pong_late transit0 = transit0\<lparr>emitted := emitted transit0 @
        [(''$node.pong'',
          [[(''nodeID'', VStr (get_String pong_late ''sender'')),
            (''elapsedTime'', VInt (1003 - get_Int pong_late ''time'')),
            (''timeDiff'', VFloat (math_Round (of_int 1003 - of_int (get_Int pong_late ''arrived'')
                                      - of_int (1003 - get_Int pong_late ''time'') / 2)))]])]\<rparr>"
    by (rule pongHandler_skew) (simp_all add: pong_fields)
  then show ?thesis
    by (simp add: pong_fields math_Round_def transit0_def)
qed

text \<open>
  C6, as stated, fails: on node A, \<^verbatim>\<open>SendPing\<close> publishes its PING to the channel of
  node A itself.
\<close>

theorem SendPing_target_counterexample:
  "localNodeID transit0 = ''nodeA''
   \<and> published (SendPing fields_serializer 1000 transit0) =
       [(''PING'', ''nodeA'', Some (fields_message [(''sender'', VStr ''nodeA''), (''time'', VInt 1000)]))]"
  by (simp add: SendPing_def Publish_def Let_def transit0_def fields_serializer_def message_or_nil_def)

text \<open>
  C6, amended. Every call of \<^verbatim>\<open>SendPing\<close> publishes exactly one PING message and
  changes nothing else; the message is addressed to the channel named by the local
  node's own ID and is the encoding of the body \<open>sender\<close> = the local node's ID,
  \<open>time\<close> = the local send time.
\<close>

theorem SendPing_publishes_to_self:
  "SendPing MapToMessage now s =
     s\<lparr>published := published s @
        [(''PING'', localNodeID s,
          message_or_nil (MapToMessage [(''sender'', VStr (localNodeID s)), (''time'', VInt now)]))]\<rparr>"
  by (simp add: SendPing_def Publish_def Let_def)

text \<open>
  C7. For a PING message with sender \<open>S\<close> and time \<open>T\<close>, the handler publishes exactly
  one PONG message, addressed to \<open>S\<close>, whose body holds \<open>time = T\<close> and \<open>arrived\<close> =
  the local clock, and whose \<open>sender\<close> field is \<open>S\<close> again: the ID of the node that
  sent the PING, not the ID of the node that answers.
\<close>

theorem pingHandler_pong_sender:
  "pingHandler MapToMessage now message s =
     s\<lparr>published := published s @
        [(''PONG'', get_String message ''sender'',
          message_or_nil (MapToMessage [(''sender'', VStr (get_String message ''sender'')),
                                        (''time'', VInt (get_Int message ''time'')),
                                        (''arrived'', VInt now)]))]\<rparr>"
  by (simp add: pingHandler_def Publish_def Let_def)

theorem pingHandler_pong_sender_witness:
  "localNodeID transit0 = ''nodeA''
   \<and> published (pingHandler fields_serializer 1001 ping_from_B transit0) =
       [(''PONG'', ''nodeB'',
         Some (fields_message [(''sender'', VStr ''nodeB''), (''time'', VInt 1000), (''arrived'', VInt 1001)]))]"
proof -
  have f: "get_String ping_from_B ''sender'' = ''nodeB''" "get_Int ping_from_B ''time'' = 1000"
    by (simp_all add: ping_from_B_def fields_message_def)
  have e: "fields_serializer [(''sender'', VStr ''nodeB''), (''time'', VInt 1000), (''arrived'', VInt 1001)]
        = Inr (fields_message [(''sender'', VStr ''nodeB''), (''time'', VInt 1000), (''arrived'', VInt 1001)])"
    by (simp add: fields_serializer_def)
  show ?thesis
    by (simp add: pingHandler_pong_sender [of fields_serializer 1001 ping_from_B transit0] f e
        message_or_nil_def) (simp add: transit0_def)
qed

section \<open>Lookups on missing paths\<close>

text \<open>
  C8. For every decoded payload and every path not present in it, \<^verbatim>\<open>Get(path)\<close> returns
  a view for which \<^verbatim>\<open>Exists()\<close> is false and \<^verbatim>\<open>String\<close>, \<^verbatim>\<open>Int\<close>, \<^verbatim>\<open>Int64\<close>,
  \<^verbatim>\<open>Uint\<close>, \<^verbatim>\<open>Float\<close>, \<^verbatim>\<open>Bool\<close>, \<^verbatim>\<open>Time\<close> and \<^verbatim>\<open>Value\<close> return the zero value
  of their type; every accessor is a total function, so none fails.
\<close>

theorem JSONPayload_Get_missing:
  "\<not> present g payload path \<Longrightarrow>
   (let view = JSONPayload_Get g payload path
    in JSONPayload_Exists view = False
     \<and> JSONPayload_String g view = []
     \<and> JSONPayload_Int g view = 0
     \<and> JSONPayload_Int64 g view = 0
     \<and> JSONPayload_Uint g view = 0
     \<and> JSONPayload_Float g view = 0
     \<and> JSONPayload_Bool g view = False
     \<and> JSONPayload_Time g view = zero_time
     \<and> JSONPayload_Value view = VNil)"
proof -
  assume "\<not> present g payload path"
  then have "Result_Get g (result payload) path = NonExistent"
    by (simp add: present_def Result_Get_def split: Result.splits option.splits)
  then show ?thesis
    by (simp add: JSONPayload_Get_def JSONPayload_Exists_def Result_Exists_def
        JSONPayload_String_def Result_String_def JSONPayload_Int_def Result_Int_def
        JSONPayload_Int64_def JSONPayload_Uint_def Result_Uint_def JSONPayload_Float_def
        Result_Float_def JSONPayload_Bool_def Result_Bool_def JSONPayload_Time_def
        Result_Time_def JSONPayload_Value_def Result_Value_def)
qed

theorem JSONPayload_Get_missing_witness:
  "\<not> present keys_gjson payload_ab ''c''
   \<and> JSONPayload_Exists (JSONPayload_Get keys_gjson payload_ab ''c'') = False
   \<and> JSONPayload_String keys_gjson (JSONPayload_Get keys_gjson payload_ab ''c'') = []
   \<and> JSONPayload_Int keys_gjson (JSONPayload_Get keys_gjson payload_ab ''c'') = 0
   \<and> JSONPayload_Bool keys_gjson (JSONPayload_Get keys_gjson payload_ab ''c'') = False
   \<and> JSONPayload_Value (JSONPayload_Get keys_gjson payload_ab ''c'') = VNil
   \<and> present keys_gjson payload_ab ''a''
   \<and> JSONPayload_Int keys_gjson (JSONPayload_Get keys_gjson payload_ab ''a'') = 1"
proof -
  have m: "\<not> present keys_gjson payload_ab ''c''"
    by (simp add: present_def keys_gjson_def payload_ab_def)
  have a: "present keys_gjson payload_ab ''a''"
    by (simp add: present_def keys_gjson_def payload_ab_def)
  have i: "JSONPayload_Int keys_gjson (JSONPayload_Get keys_gjson payload_ab ''a'') = 1"
    by (simp add: JSONPayload_Int_def JSONPayload_Get_def Result_Get_def Result_Int_def
        keys_gjson_def payload_ab_def)
  from JSONPayload_Get_missing [OF m] show ?thesis
    using m a i by (simp add: Let_def)
qed

end
